theory Spec2Isabelle
  imports Complex_Main "HOL-Library.Sublist"
begin

section \<open>Static Asset Server (Full Stack---1/index.js)\<close>

subsection \<open>The functions of Node's \<open>path\<close> module the server calls (POSIX)\<close>

text \<open>
  The server calls \<open>path.resolve\<close> and \<open>path.extname\<close>. Both belong to the Node
  runtime, not to the repository; they are written here as Node's POSIX implementation
  computes them, on path segments. A path is a \<open>string\<close>; its segments are the pieces
  between the \<open>/\<close> characters.
\<close>

fun split_slash :: "string \<Rightarrow> string list" where
  "split_slash [] = [[]]"
| "split_slash (c # cs) =
     (if c = CHR ''/'' then [] # split_slash cs
      else (case split_slash cs of
              [] \<Rightarrow> [[c]]
            | s # ss \<Rightarrow> (c # s) # ss))"

text \<open>
  \<open>normalizeString(path, allowAboveRoot = false)\<close>: empty segments and \<open>.\<close> are
  dropped, \<open>..\<close> removes the segment before it when there is one and is dropped
  otherwise, every other segment is kept. \<open>acc\<close> holds the segments kept so far.
\<close>

fun normalize_segments :: "string list \<Rightarrow> string list \<Rightarrow> string list" where
  "normalize_segments acc [] = acc"
| "normalize_segments acc (s # ss) =
     (if s = [] \<or> s = ''.'' then normalize_segments acc ss
      else if s = ''..'' then normalize_segments (butlast acc) ss
      else normalize_segments (acc @ [s]) ss)"

fun join_slash :: "string list \<Rightarrow> string" where
  "join_slash [] = []"
| "join_slash [s] = s"
| "join_slash (s # t # ss) = s @ CHR ''/'' # join_slash (t # ss)"

definition normalizeString :: "string \<Rightarrow> string" where
  "normalizeString p = join_slash (normalize_segments [] (split_slash p))"

definition isAbsolute :: "string \<Rightarrow> bool" where
  "isAbsolute p = (case p of [] \<Rightarrow> False | c # _ \<Rightarrow> c = CHR ''/'')"

text \<open>
  \<open>path.resolve(a, b)\<close>: the arguments are taken from the right, each non-empty one
  is put in front of the path built so far (followed by \<open>/\<close>), until an absolute one
  has been added; the working directory \<open>cwd\<close> (always absolute) is used when neither
  argument is absolute. The result is \<open>/\<close> followed by the normalised path.
\<close>

definition resolve :: "string \<Rightarrow> string \<Rightarrow> string \<Rightarrow> string" where
  "resolve cwd a b =
     (let r1 = (if b = [] then [] else b @ ''/'');
          abs1 = isAbsolute b;
          r2 = (if abs1 \<or> a = [] then r1 else a @ ''/'' @ r1);
          abs2 = (abs1 \<or> isAbsolute a);
          r3 = (if abs2 then r2 else cwd @ ''/'' @ r2)
      in CHR ''/'' # normalizeString r3)"

text \<open>
  \<open>path.extname(p)\<close>: in the last non-empty segment of \<open>p\<close>, the text from the last
  dot on; the empty string when the segment has no dot, when its only dot is its first
  character, and when the segment is \<open>..\<close>.
\<close>

definition last_segment :: "string \<Rightarrow> string" where
  "last_segment p = (case rev (filter (\<lambda>s. s \<noteq> []) (split_slash p)) of
                       [] \<Rightarrow> []
                     | b # _ \<Rightarrow> b)"

definition extname :: "string \<Rightarrow> string" where
  "extname p =
     (let b = last_segment p;
          e = rev (takeWhile (\<lambda>c. c \<noteq> CHR ''.'') (rev b))
      in if CHR ''.'' \<notin> set b then []
         else if Suc (length e) = length b then []
         else if b = ''..'' then []
         else CHR ''.'' # e)"

subsection \<open>The server\<close>

text \<open>
  What the server's answer depends on besides the request: the directory of the module
  (\<open>__dirname\<close>), the working directory of the process, and the file system as
  \<open>readFile\<close> sees it (\<open>None\<close>: the read fails, whatever the cause).
\<close>

record host =
  module_dirname :: string
  cwd :: string
  files :: "string \<Rightarrow> string option"

record http_request =
  http_method :: string
  url :: string

record http_response =
  status :: nat
  headers :: "(string \<times> string) list"
  body :: string

definition PUBLIC_DIR :: "host \<Rightarrow> string" where
  "PUBLIC_DIR h = resolve (cwd h) (module_dirname h) ''public''"

definition mimeTypes :: "(string \<times> string) list" where
  "mimeTypes =
     [(''.html'', ''text/html''),
      (''.css'', ''text/css''),
      (''.js'', ''application/javascript''),
      (''.png'', ''image/png''),
      (''.jpg'', ''image/jpeg''),
      (''.gif'', ''image/gif''),
      (''.ico'', ''image/x-icon'')]"

text \<open>\<open>mimeTypes[ext] || 'application/octet-stream'\<close>: a missing key and an empty
  string are both falsy.\<close>

definition content_type_of :: "string \<Rightarrow> string" where
  "content_type_of ext =
     (case map_of mimeTypes ext of
        None \<Rightarrow> ''application/octet-stream''
      | Some t \<Rightarrow> if t = [] then ''application/octet-stream'' else t)"

definition startsWith :: "string \<Rightarrow> string \<Rightarrow> bool" where
  "startsWith s p = prefix p s"

text \<open>Lines 23-24: the path the request's URL resolves to.\<close>

definition resolved_path :: "host \<Rightarrow> http_request \<Rightarrow> string" where
  "resolved_path h req =
     (let filePath = (if url req = ''/'' then ''/index.html'' else url req)
      in resolve (cwd h) (PUBLIC_DIR h) (''.'' @ filePath))"

text \<open>
  The request handler. It returns the response and the list of the paths it gave to
  \<open>readFile\<close>, in order.
\<close>

definition server :: "host \<Rightarrow> http_request \<Rightarrow> http_response \<times> string list" where
  "server h req =
     (let filePath = resolved_path h req
      in if \<not> startsWith filePath (PUBLIC_DIR h)
         then (\<lparr>status = 403, headers = [], body = ''Forbidden''\<rparr>, [])
         else (case files h filePath of
                 None \<Rightarrow> (\<lparr>status = 404, headers = [], body = ''Not Found''\<rparr>, [filePath])
               | Some data \<Rightarrow>
                   (\<lparr>status = 200,
                     headers = [(''Content-Type'', content_type_of (extname filePath))],
                     body = data\<rparr>,
                    [filePath])))"

text \<open>
  A path lies within a directory when it is the directory itself or continues it after
  a \<open>/\<close>. Both paths are results of \<open>resolve\<close>, hence absolute and normalised.
\<close>

definition lies_within :: "string \<Rightarrow> string \<Rightarrow> bool" where
  "lies_within dir p = (p = dir \<or> prefix (dir @ ''/'') p)"

section \<open>Form Persistence Service (Full stack--2/index.js)\<close>

subsection \<open>Values, the backing document and the environment\<close>

text \<open>
  The values the service handles are the JavaScript values \<open>JSON.parse\<close> and the body
  parsers produce: what is read from the file, what \<open>req.body\<close> and \<open>req.query\<close>
  hold, and the record the service builds from them. A number is an IEEE double. A
  finite double is given by the real number it denotes (not every real is a double);
  zero with a negative sign is a value of its own, and \<open>JSON.parse\<close> yields the two
  infinities for numerals beyond the range of doubles (\<open>1e999\<close>). \<open>undefined\<close> is
  \<open>None\<close> of \<open>json option\<close>.
\<close>

datatype js_number = Finite real | Minus_zero | Plus_infinity | Minus_infinity

datatype json =
  JNull
| JBool bool
| JNum js_number
| JStr string
| JArr "json list"
| JObj "(string \<times> json) list"

text \<open>JavaScript's truthiness, as \<open>!name\<close> and \<open>phone || ''\<close> test it: of the
  numbers, the two zeros are falsy and the infinities are truthy.\<close>

fun number_truthy :: "js_number \<Rightarrow> bool" where
  "number_truthy (Finite x) = (x \<noteq> 0)"
| "number_truthy Minus_zero = False"
| "number_truthy Plus_infinity = True"
| "number_truthy Minus_infinity = True"

fun truthy :: "json option \<Rightarrow> bool" where
  "truthy None = False"
| "truthy (Some JNull) = False"
| "truthy (Some (JBool b)) = b"
| "truthy (Some (JNum n)) = number_truthy n"
| "truthy (Some (JStr s)) = (s \<noteq> [])"
| "truthy (Some (JArr xs)) = True"
| "truthy (Some (JObj ps)) = True"

text \<open>\<open>v || ''\<close>\<close>

definition or_empty :: "json option \<Rightarrow> json" where
  "or_empty v = (case v of None \<Rightarrow> JStr [] | Some x \<Rightarrow> if truthy v then x else JStr [])"

text \<open>
  An object literal may hold \<open>undefined\<close> properties; \<open>JSON.stringify\<close> leaves them
  out. \<open>object\<close> builds the object without them.
\<close>

fun defined_props :: "(string \<times> json option) list \<Rightarrow> (string \<times> json) list" where
  "defined_props [] = []"
| "defined_props ((k, None) # ps) = defined_props ps"
| "defined_props ((k, Some v) # ps) = (k, v) # defined_props ps"

definition object :: "(string \<times> json option) list \<Rightarrow> json" where
  "object ps = JObj (defined_props ps)"

text \<open>Reading a property of a value: \<open>undefined\<close> unless the value is an object that has it.\<close>

fun property :: "json \<Rightarrow> string \<Rightarrow> json option" where
  "property (JObj ps) k = map_of ps k"
| "property v k = None"

text \<open>
  The text of \<open>DATA_FILE\<close>. A text that \<open>JSON.parse\<close> accepts is identified with the
  value it parses to; \<open>Unparsable\<close> is any text \<open>JSON.parse\<close> rejects (the empty
  file and a file cut short among them). The document is \<open>None\<close> when the file does
  not exist.
\<close>

datatype file_text = Unparsable | Text json

type_synonym document = "file_text option"

text \<open>
  \<open>JSON.stringify\<close> does not write every value so that it parses back to itself: an
  infinite number is written as \<open>null\<close> and negative zero as \<open>0\<close>, at every depth of
  arrays and objects. \<open>written v\<close> is the value that the text \<open>JSON.stringify\<close>
  writes for \<open>v\<close> parses to.
\<close>

fun number_written :: "js_number \<Rightarrow> json" where
  "number_written (Finite x) = JNum (Finite x)"
| "number_written Minus_zero = JNum (Finite 0)"
| "number_written Plus_infinity = JNull"
| "number_written Minus_infinity = JNull"

primrec written :: "json \<Rightarrow> json" where
  "written JNull = JNull"
| "written (JBool b) = JBool b"
| "written (JNum n) = number_written n"
| "written (JStr s) = JStr s"
| "written (JArr xs) = JArr (map written xs)"
| "written (JObj ps) = JObj (map (map_prod id written) ps)"

datatype js_error = TypeError | SyntaxError | IOError

text \<open>
  What a request finds outside the program: whether \<open>readFile\<close> fails, how
  \<open>writeFile\<close> ends (done; failed with the file untouched; failed after the file was
  truncated, which leaves a text that does not parse), the clock reading of
  \<open>Date.now()\<close> and the string \<open>new Date().toISOString()\<close> returns.
\<close>

datatype write_result = Written | Write_refused | Write_cut_short

record io =
  read_fails :: bool
  write_result :: write_result
  now :: int
  iso_now :: string

definition existsSync :: "document \<Rightarrow> bool" where
  "existsSync d = (d \<noteq> None)"

definition readFileAsync :: "io \<Rightarrow> document \<Rightarrow> js_error + file_text" where
  "readFileAsync e d =
     (case d of
        None \<Rightarrow> Inl IOError
      | Some t \<Rightarrow> if read_fails e then Inl IOError else Inr t)"

definition JSON_parse :: "file_text \<Rightarrow> js_error + json" where
  "JSON_parse t = (case t of Unparsable \<Rightarrow> Inl SyntaxError | Text v \<Rightarrow> Inr v)"

definition JSON_stringify :: "json \<Rightarrow> file_text" where
  "JSON_stringify v = Text (written v)"

definition writeFileAsync :: "io \<Rightarrow> file_text \<Rightarrow> document \<Rightarrow> (js_error + unit) \<times> document" where
  "writeFileAsync e t d =
     (case write_result e of
        Written \<Rightarrow> (Inr (), Some t)
      | Write_refused \<Rightarrow> (Inl IOError, d)
      | Write_cut_short \<Rightarrow> (Inl IOError, Some Unparsable))"

subsection \<open>The helpers \<open>readData\<close> and \<open>writeData\<close>\<close>

text \<open>Lines 46-51, the body of the \<open>try\<close>.\<close>

definition readData_try :: "io \<Rightarrow> document \<Rightarrow> js_error + json" where
  "readData_try e d =
     (if \<not> existsSync d then Inr (JArr [])
      else (case readFileAsync e d of
              Inl err \<Rightarrow> Inl err
            | Inr dat \<Rightarrow> JSON_parse dat))"

text \<open>Lines 45-56: the \<open>catch\<close> logs the error and returns the empty array.\<close>

definition readData :: "io \<Rightarrow> document \<Rightarrow> json" where
  "readData e d = (case readData_try e d of Inl err \<Rightarrow> JArr [] | Inr v \<Rightarrow> v)"

text \<open>Lines 59-65: the \<open>catch\<close> logs the error; the caller is not told.\<close>

definition writeData :: "io \<Rightarrow> json \<Rightarrow> document \<Rightarrow> document" where
  "writeData e dat d =
     (case writeFileAsync e (JSON_stringify dat) d of
        (Inl err, d') \<Rightarrow> d'
      | (Inr u, d') \<Rightarrow> d')"

subsection \<open>Requests, replies and the routes\<close>

text \<open>
  \<open>req.body\<close> is \<open>None\<close> when no parser set it (\<open>undefined\<close>), else the properties
  of the parsed body; \<open>req.query\<close> holds the parsed query string.
\<close>

record form_request =
  req_body :: "(string \<times> json) list option"
  req_query :: "(string \<times> json) list"

datatype reply =
  Render string "(string \<times> json option) list"
| Redirect string
| Json nat json

text \<open>\<open>Array.prototype.push\<close> and \<open>reverse\<close>: a value that is not an array has neither
  method, and the call throws a \<open>TypeError\<close>.\<close>

definition push :: "json \<Rightarrow> json \<Rightarrow> js_error + json" where
  "push a x = (case a of JArr xs \<Rightarrow> Inr (JArr (xs @ [x])) | _ \<Rightarrow> Inl TypeError)"

definition reverse :: "json \<Rightarrow> js_error + json" where
  "reverse a = (case a of JArr xs \<Rightarrow> Inr (JArr (rev xs)) | _ \<Rightarrow> Inl TypeError)"

text \<open>Lines 68-73.\<close>

definition get_root :: "form_request \<Rightarrow> io \<Rightarrow> document \<Rightarrow> reply \<times> document" where
  "get_root r e d =
     (Render ''form''
        [(''title'', Some (JStr ''User Registration Form'')),
         (''message'', map_of (req_query r) ''message'')],
      d)"

text \<open>Lines 88-95: the record of a submission.\<close>

definition newSubmission :: "(string \<times> json) list \<Rightarrow> io \<Rightarrow> json" where
  "newSubmission b e =
     object
       [(''id'', Some (JNum (Finite (of_int (now e))))),
        (''name'', map_of b ''name''),
        (''email'', map_of b ''email''),
        (''phone'', Some (or_empty (map_of b ''phone''))),
        (''message'', Some (or_empty (map_of b ''message''))),
        (''timestamp'', Some (JStr (iso_now e)))]"

text \<open>
  Lines 77-104, the body of the \<open>try\<close>. Destructuring an \<open>undefined\<close> body throws, and
  so does \<open>push\<close> on a value that is not an array; both come before the write, so the
  document is untouched when the \<open>catch\<close> runs.
\<close>

definition post_submit_try :: "form_request \<Rightarrow> io \<Rightarrow> document \<Rightarrow> js_error + reply \<times> document" where
  "post_submit_try r e d =
     (case req_body r of
        None \<Rightarrow> Inl TypeError
      | Some b \<Rightarrow>
          if \<not> truthy (map_of b ''name'') \<or> \<not> truthy (map_of b ''email'')
          then Inr (Redirect ''/?message=Name and email are required'', d)
          else (let existingData = readData e d
                in case push existingData (newSubmission b e) of
                     Inl err \<Rightarrow> Inl err
                   | Inr existingData' \<Rightarrow>
                       Inr (Redirect ''/display'', writeData e existingData' d)))"

text \<open>Lines 75-110.\<close>

definition post_submit :: "form_request \<Rightarrow> io \<Rightarrow> document \<Rightarrow> reply \<times> document" where
  "post_submit r e d =
     (case post_submit_try r e d of
        Inl err \<Rightarrow> (Redirect ''/?message=An error occurred. Please try again.'', d)
      | Inr res \<Rightarrow> res)"

text \<open>Lines 114-118, the body of the \<open>try\<close>, and lines 112-127.\<close>

definition get_display_try :: "io \<Rightarrow> document \<Rightarrow> js_error + reply" where
  "get_display_try e d =
     (let dat = readData e d
      in case reverse dat of
           Inl err \<Rightarrow> Inl err
         | Inr reversed \<Rightarrow>
             Inr (Render ''display''
                    [(''title'', Some (JStr ''Submitted Data'')),
                     (''submissions'', Some reversed)]))"

definition get_display :: "form_request \<Rightarrow> io \<Rightarrow> document \<Rightarrow> reply \<times> document" where
  "get_display r e d =
     (case get_display_try e d of
        Inl err \<Rightarrow>
          (Render ''display''
             [(''title'', Some (JStr ''Submitted Data'')),
              (''submissions'', Some (JArr [])),
              (''error'', Some (JStr ''Error loading data''))],
           d)
      | Inr page \<Rightarrow> (page, d))"

text \<open>Lines 131-132, the body of the \<open>try\<close>, and lines 129-137.\<close>

definition get_api_data_try :: "io \<Rightarrow> document \<Rightarrow> js_error + reply" where
  "get_api_data_try e d = (let dat = readData e d in Inr (Json 200 dat))"

definition get_api_data :: "form_request \<Rightarrow> io \<Rightarrow> document \<Rightarrow> reply \<times> document" where
  "get_api_data r e d =
     (case get_api_data_try e d of
        Inl err \<Rightarrow> (Json 500 (JObj [(''error'', JStr ''Error fetching data'')]), d)
      | Inr answer \<Rightarrow> (answer, d))"

text \<open>The four routes the application declares, and a run of requests, one after the
  other, each with the environment it meets. The middleware of line 39
  (\<open>express.static\<close>) only reads files below \<open>public\<close> and is left out.\<close>

datatype route = Get_root | Post_submit | Get_display | Get_api_data

fun handle :: "route \<Rightarrow> form_request \<Rightarrow> io \<Rightarrow> document \<Rightarrow> reply \<times> document" where
  "handle Get_root r e d = get_root r e d"
| "handle Post_submit r e d = post_submit r e d"
| "handle Get_display r e d = get_display r e d"
| "handle Get_api_data r e d = get_api_data r e d"

fun run :: "(route \<times> form_request \<times> io) list \<Rightarrow> document \<Rightarrow> document" where
  "run [] d = d"
| "run ((rt, r, e) # steps) d = run steps (snd (handle rt r e d))"

subsection \<open>The persisted collection\<close>

text \<open>
  The submission collection a document stands for: the elements of the array it holds;
  empty when the file is absent or does not parse. A document that parses to something
  other than an array holds no collection.
\<close>

definition collection :: "document \<Rightarrow> json list" where
  "collection d = (case d of Some (Text (JArr xs)) \<Rightarrow> xs | _ \<Rightarrow> [])"

definition holds_collection :: "document \<Rightarrow> bool" where
  "holds_collection d = (case d of Some (Text (JArr xs)) \<Rightarrow> True | Some (Text v) \<Rightarrow> False | _ \<Rightarrow> True)"

text \<open>What a request submits under a field name: \<open>undefined\<close> when the body or the
  field is missing.\<close>

definition body_field :: "form_request \<Rightarrow> string \<Rightarrow> json option" where
  "body_field r k = (case req_body r of None \<Rightarrow> None | Some b \<Rightarrow> map_of b k)"







definition as_post :: "form_request \<times> io \<Rightarrow> route \<times> form_request \<times> io" where
  "as_post p = (Post_submit, fst p, snd p)"

text \<open>The invariant of the collection: every record has a name and an email that pass
  the test of line 80.\<close>

definition required_present :: "json \<Rightarrow> bool" where
  "required_present x = (truthy (property x ''name'') \<and> truthy (property x ''email''))"

definition invariant :: "document \<Rightarrow> bool" where
  "invariant d = list_all required_present (collection d)"

text \<open>
  A document is as the service writes it when writing its value again changes nothing:
  it holds no infinite number and no negative zero. Every document the service has
  written is such, and so are the absent document and one cut short.
\<close>

definition as_written :: "document \<Rightarrow> bool" where
  "as_written d = (case d of Some (Text v) \<Rightarrow> written v = v | _ \<Rightarrow> True)"

text \<open>The two infinities: truthy, and written as \<open>null\<close>.\<close>

definition infinite_number :: "json option \<Rightarrow> bool" where
  "infinite_number v = (v = Some (JNum Plus_infinity) \<or> v = Some (JNum Minus_infinity))"

text \<open>A step of a run submits name and email of a finite kind when it is no
  \<open>POST /submit\<close> or neither field is an infinite number.\<close>

definition finite_required :: "route \<times> form_request \<times> io \<Rightarrow> bool" where
  "finite_required s =
     (case s of
        (Post_submit, r, e) \<Rightarrow>
          \<not> (infinite_number (body_field r ''name'') \<or> infinite_number (body_field r ''email''))
      | _ \<Rightarrow> True)"

section \<open>Concrete inputs\<close>

text \<open>A host whose module lives in \<open>/srv/app\<close>, with two files under the public
  directory and one in a directory beside it whose name starts with \<open>public\<close>.\<close>

definition example_host :: host where
  "example_host =
     \<lparr>module_dirname = ''/srv/app'',
      cwd = ''/srv/app'',
      files = [''/srv/app/public/index.html'' \<mapsto> ''<h1>hi</h1>'',
               ''/srv/app/public/notes.txt'' \<mapsto> ''notes'',
               ''/srv/app/public-backup/secrets.txt'' \<mapsto> ''top secret'']\<rparr>"

definition get_request :: "string \<Rightarrow> http_request" where
  "get_request u = \<lparr>http_method = ''GET'', url = u\<rparr>"

text \<open>An environment in which reading and writing succeed, and the submission of the
  specification's example.\<close>

definition ok_io :: io where
  "ok_io = \<lparr>read_fails = False, write_result = Written, now = 1000,
            iso_now = ''1970-01-01T00:00:01.000Z''\<rparr>"

definition ada :: form_request where
  "ada = \<lparr>req_body = Some [(''name'', JStr ''Ada''), (''email'', JStr ''ada@example.com'')],
          req_query = []\<rparr>"

definition ada_record :: "int \<Rightarrow> string \<Rightarrow> json" where
  "ada_record t stamp =
     JObj [(''id'', JNum (Finite (of_int t))), (''name'', JStr ''Ada''), (''email'', JStr ''ada@example.com''),
           (''phone'', JStr []), (''message'', JStr []), (''timestamp'', JStr stamp)]"

section \<open>Properties of the Static Asset Server\<close>

lemmas path_defs =
  resolve_def isAbsolute_def normalizeString_def PUBLIC_DIR_def resolved_path_def
  last_segment_def extname_def

lemma mimeTypes_nonempty: "map_of mimeTypes e = Some t \<Longrightarrow> t \<noteq> []"
  by (auto simp: mimeTypes_def split: if_splits)

lemma content_type_of_table:
  "content_type_of e =
     (case map_of mimeTypes e of None \<Rightarrow> ''application/octet-stream'' | Some t \<Rightarrow> t)"
  by (auto simp: content_type_of_def dest: mimeTypes_nonempty split: option.splits)

lemma lies_within_startsWith: "lies_within dir p \<Longrightarrow> startsWith p dir"
  by (auto simp: lies_within_def startsWith_def dest: append_prefixD)

text \<open>What the guard of line 27 does achieve: a resolved path that does not start with
  the characters of \<open>PUBLIC_DIR\<close> is answered with 403 and nothing is read.\<close>

lemma server_forbidden:
  "\<not> startsWith (resolved_path h req) (PUBLIC_DIR h) \<Longrightarrow>
     server h req = (\<lparr>status = 403, headers = [], body = ''Forbidden''\<rparr>, [])"
  by (simp add: server_def)

lemma example_host_PUBLIC_DIR: "PUBLIC_DIR example_host = ''/srv/app/public''"
  by (simp add: path_defs example_host_def)

text \<open>
  Claim C1 says that every request whose resolved path lies outside the public root is
  answered with 403 and causes no file read. The guard compares characters, not path
  segments: \<open>/srv/app/public-backup/secrets.txt\<close> starts with the characters of
  \<open>/srv/app/public\<close> without lying within that directory. On the request
  \<open>GET /../public-backup/secrets.txt\<close> the server reads that file and answers 200
  with its contents.
\<close>

theorem C1_sibling_directory_is_read:
  "server example_host (get_request ''/../public-backup/secrets.txt'')
     = (\<lparr>status = 200,
         headers = [(''Content-Type'', ''application/octet-stream'')],
         body = ''top secret''\<rparr>,
        [''/srv/app/public-backup/secrets.txt''])
   \<and> resolved_path example_host (get_request ''/../public-backup/secrets.txt'')
     = ''/srv/app/public-backup/secrets.txt''
   \<and> PUBLIC_DIR example_host = ''/srv/app/public''
   \<and> \<not> lies_within (PUBLIC_DIR example_host)
         (resolved_path example_host (get_request ''/../public-backup/secrets.txt''))"
  by (simp add: server_def path_defs example_host_def get_request_def startsWith_def
        lies_within_def content_type_of_def mimeTypes_def)

text \<open>
  Claim C6: a request whose path resolves inside the public root to a file that
  \<open>readFile\<close> can read is answered with status 200, the file's contents, and the
  Content-Type the table \<open>mimeTypes\<close> gives for the extension of the resolved path,
  \<open>application/octet-stream\<close> when the table has no entry for it. The file is the
  only one read.
\<close>

theorem C6_inside_root_served:
  assumes "lies_within (PUBLIC_DIR h) (resolved_path h req)"
    and "files h (resolved_path h req) = Some data"
  shows "server h req =
           (\<lparr>status = 200,
             headers = [(''Content-Type'',
                         (case map_of mimeTypes (extname (resolved_path h req)) of
                            None \<Rightarrow> ''application/octet-stream''
                          | Some t \<Rightarrow> t))],
             body = data\<rparr>,
            [resolved_path h req])"
proof -
  have "startsWith (resolved_path h req) (PUBLIC_DIR h)"
    using assms(1) by (rule lies_within_startsWith)
  then show ?thesis
    using assms(2) by (simp add: server_def Let_def content_type_of_table)
qed

theorem C6_inside_root_served_witness:
  "lies_within (PUBLIC_DIR example_host) (resolved_path example_host (get_request ''/''))
   \<and> files example_host (resolved_path example_host (get_request ''/'')) = Some ''<h1>hi</h1>''
   \<and> server example_host (get_request ''/'')
       = (\<lparr>status = 200, headers = [(''Content-Type'', ''text/html'')],
           body = ''<h1>hi</h1>''\<rparr>,
          [''/srv/app/public/index.html''])
   \<and> lies_within (PUBLIC_DIR example_host)
         (resolved_path example_host (get_request ''/docs/../notes.txt''))
   \<and> server example_host (get_request ''/docs/../notes.txt'')
       = (\<lparr>status = 200, headers = [(''Content-Type'', ''application/octet-stream'')],
           body = ''notes''\<rparr>,
          [''/srv/app/public/notes.txt''])"
proof -
  have p1: "resolved_path example_host (get_request ''/'') = ''/srv/app/public/index.html''"
    by (simp add: path_defs example_host_def get_request_def)
  have p2: "resolved_path example_host (get_request ''/docs/../notes.txt'')
              = ''/srv/app/public/notes.txt''"
    by (simp add: path_defs example_host_def get_request_def)
  have in1: "lies_within (PUBLIC_DIR example_host) (resolved_path example_host (get_request ''/''))"
    by (simp add: p1 example_host_PUBLIC_DIR lies_within_def)
  have in2: "lies_within (PUBLIC_DIR example_host)
               (resolved_path example_host (get_request ''/docs/../notes.txt''))"
    by (simp add: p2 example_host_PUBLIC_DIR lies_within_def)
  have f1: "files example_host (resolved_path example_host (get_request ''/'')) = Some ''<h1>hi</h1>''"
    by (simp add: p1) (simp add: example_host_def)
  have f2: "files example_host (resolved_path example_host (get_request ''/docs/../notes.txt''))
              = Some ''notes''"
    by (simp add: p2) (simp add: example_host_def)
  have e1: "extname ''/srv/app/public/index.html'' = ''.html''"
    by (simp add: extname_def last_segment_def)
  have e2: "extname ''/srv/app/public/notes.txt'' = ''.txt''"
    by (simp add: extname_def last_segment_def)
  show ?thesis
    using in1 in2 f1 f2 C6_inside_root_served [OF in1 f1] C6_inside_root_served [OF in2 f2]
    by (simp add: p1 p2 e1 e2 mimeTypes_def)
qed

text \<open>
  Claim C10: the handler never looks at the request's method. Two requests with the
  same URL, on the same host and file system, get the same status, headers and body,
  and cause the same reads, whatever their methods.
\<close>

theorem C10_method_ignored:
  "url r1 = url r2 \<Longrightarrow> server h r1 = server h r2"
  by (simp add: server_def resolved_path_def)

theorem C10_method_ignored_witness:
  "server example_host \<lparr>http_method = ''POST'', url = ''/notes.txt''\<rparr>
     = server example_host \<lparr>http_method = ''GET'', url = ''/notes.txt''\<rparr>
   \<and> server example_host \<lparr>http_method = ''PUT'', url = ''/notes.txt''\<rparr>
     = server example_host \<lparr>http_method = ''GET'', url = ''/notes.txt''\<rparr>
   \<and> server example_host \<lparr>http_method = ''DELETE'', url = ''/notes.txt''\<rparr>
     = server example_host \<lparr>http_method = ''GET'', url = ''/notes.txt''\<rparr>"
  using
    C10_method_ignored [of "\<lparr>http_method = ''POST'', url = ''/notes.txt''\<rparr>"
      "\<lparr>http_method = ''GET'', url = ''/notes.txt''\<rparr>" example_host]
    C10_method_ignored [of "\<lparr>http_method = ''PUT'', url = ''/notes.txt''\<rparr>"
      "\<lparr>http_method = ''GET'', url = ''/notes.txt''\<rparr>" example_host]
    C10_method_ignored [of "\<lparr>http_method = ''DELETE'', url = ''/notes.txt''\<rparr>"
      "\<lparr>http_method = ''GET'', url = ''/notes.txt''\<rparr>" example_host]
  by simp

section \<open>Properties of the Form Persistence Service\<close>


lemma readData_eq:
  "readData e d =
     (case d of
        None \<Rightarrow> JArr []
      | Some Unparsable \<Rightarrow> JArr []
      | Some (Text v) \<Rightarrow> if read_fails e then JArr [] else v)"
  by (simp add: readData_def readData_try_def existsSync_def readFileAsync_def JSON_parse_def
        split: option.splits file_text.splits)

lemma readData_collection:
  "holds_collection d \<Longrightarrow> readData e d = JArr (if read_fails e then [] else collection d)"
  by (auto simp: readData_eq holds_collection_def collection_def
        split: option.splits file_text.splits json.splits)

lemma writeData_eq:
  "writeData e v d =
     (case write_result e of
        Written \<Rightarrow> Some (Text (written v))
      | Write_refused \<Rightarrow> d
      | Write_cut_short \<Rightarrow> Some Unparsable)"
  by (simp add: writeData_def writeFileAsync_def JSON_stringify_def split: write_result.splits)

lemma number_written_idem: "written (number_written n) = number_written n"
  by (cases n) simp_all

lemma written_idem: "written (written v) = written v"
proof (induction v)
  case (JArr xs)
  then show ?case by simp
next
  case (JObj ps)
  have "map_prod id written (map_prod id written p) = map_prod id written p"
    if "p \<in> set ps" for p
  proof (cases p)
    case (Pair k v)
    have "written (written v) = written v"
      using that Pair by (intro JObj.IH [of p v]) simp_all
    with Pair show ?thesis by simp
  qed
  then show ?case by simp
qed (simp_all add: number_written_idem)

lemma map_of_written:
  "map_of (map (map_prod id written) ps) k = map_option written (map_of ps k)"
  by (induction ps) auto

lemma property_number_written: "property (number_written n) k = None"
  by (cases n) simp_all

lemma property_written: "property (written x) k = map_option written (property x k)"
  by (cases x) (simp_all add: map_of_written property_number_written)

lemma collection_array: "collection (Some (Text (JArr xs))) = xs"
  by (simp add: collection_def)

lemma collection_as_written: "as_written d \<Longrightarrow> map written (collection d) = collection d"
  by (auto simp: as_written_def collection_def split: option.splits file_text.splits json.splits)

lemma truthy_Some: "truthy v \<Longrightarrow> \<exists>x. v = Some x"
  by (cases v) auto

lemma truthy_written:
  assumes "truthy v" and "\<not> infinite_number v"
  shows "truthy (map_option written v)"
proof -
  from assms(1) obtain x where x: "v = Some x"
    using truthy_Some by blast
  show ?thesis
  proof (cases x)
    case (JNum n)
    with assms x show ?thesis
      by (cases n) (simp_all add: infinite_number_def)
  qed (use assms x in simp_all)
qed

lemma truthy_present: "truthy v \<Longrightarrow> v \<noteq> None \<and> v \<noteq> Some JNull \<and> v \<noteq> Some (JStr [])"
  by (cases v) auto

lemma post_submit_rejected:
  "\<not> truthy (body_field r ''name'') \<or> \<not> truthy (body_field r ''email'') \<Longrightarrow>
   post_submit r e d =
     (Redirect (''/?message='' @ (if req_body r = None
                                  then ''An error occurred. Please try again.''
                                  else ''Name and email are required'')), d)"
  by (auto simp: post_submit_def post_submit_try_def body_field_def split: option.splits)

lemma post_submit_accepted:
  assumes "req_body r = Some b" "truthy (map_of b ''name'')" "truthy (map_of b ''email'')"
  shows "post_submit r e d =
           (case readData e d of
              JArr xs \<Rightarrow> (Redirect ''/display'', writeData e (JArr (xs @ [newSubmission b e])) d)
            | _ \<Rightarrow> (Redirect ''/?message=An error occurred. Please try again.'', d))"
  using assms
  by (simp add: post_submit_def post_submit_try_def push_def split: json.splits)

lemma newSubmission_eq:
  "map_of b ''name'' = Some n \<Longrightarrow> map_of b ''email'' = Some m \<Longrightarrow>
   newSubmission b e =
     JObj [(''id'', JNum (Finite (of_int (now e)))), (''name'', n), (''email'', m),
           (''phone'', or_empty (map_of b ''phone'')),
           (''message'', or_empty (map_of b ''message'')),
           (''timestamp'', JStr (iso_now e))]"
  by (simp add: newSubmission_def object_def)

lemma written_or_empty:
  "(\<forall>p. v = Some p \<and> truthy (Some p) \<longrightarrow> written (or_empty v) = written p)
   \<and> (\<not> truthy v \<longrightarrow> written (or_empty v) = JStr [])
   \<and> (\<forall>s. v = Some (JStr s) \<longrightarrow> written (or_empty v) = JStr s)"
  by (cases v) (auto simp: or_empty_def)

lemma post_submit_stores:
  assumes "req_body r = Some b" "truthy (map_of b ''name'')" "truthy (map_of b ''email'')"
    and "holds_collection d" "\<not> read_fails e" "write_result e = Written"
  shows "post_submit r e d =
           (Redirect ''/display'',
            Some (Text (JArr (map written (collection d) @ [written (newSubmission b e)]))))"
  using assms(4-6)
  by (simp add: post_submit_accepted [OF assms(1-3)] readData_collection writeData_eq)

text \<open>
  Claim C3, as amended. A \<open>POST /submit\<close> whose name and email are non-empty strings,
  with any phone and message, met by a document that is absent, unparsable or an array,
  a read that does not fail and a write that succeeds, is answered with a redirect to
  \<open>/display\<close> and appends exactly one record behind the stored ones, so that the
  length of the persisted collection grows by one. The stored records are written again
  by \<open>JSON.stringify\<close>, which leaves them as they are in a document the service wrote.
  The new record has six properties: the identifier, which is the clock's reading in
  milliseconds; the submitted name and email; phone and message; and the timestamp
  string of the clock. Phone and message are the empty string when the submitted value
  is absent or falsy, the submitted string when it is a string, and in general the
  submitted truthy value as \<open>JSON.stringify\<close> writes it. The identifier differs from
  every identifier already stored when those are all numbers below the clock's reading;
  the code does nothing else to make it unique.
\<close>

theorem C3_valid_submission_appends:
  assumes "req_body r = Some b"
    and "map_of b ''name'' = Some (JStr n)" and "n \<noteq> []"
    and "map_of b ''email'' = Some (JStr m)" and "m \<noteq> []"
    and "holds_collection d" and "\<not> read_fails e" and "write_result e = Written"
  shows "\<exists>ph ms.
           post_submit r e d =
             (Redirect ''/display'',
              Some (Text (JArr (map written (collection d) @
                [JObj [(''id'', JNum (Finite (of_int (now e)))),
                       (''name'', JStr n),
                       (''email'', JStr m),
                       (''phone'', ph),
                       (''message'', ms),
                       (''timestamp'', JStr (iso_now e))]]))))
         \<and> (\<forall>p. map_of b ''phone'' = Some p \<and> truthy (Some p) \<longrightarrow> ph = written p)
         \<and> (\<not> truthy (map_of b ''phone'') \<longrightarrow> ph = JStr [])
         \<and> (\<forall>s. map_of b ''phone'' = Some (JStr s) \<longrightarrow> ph = JStr s)
         \<and> (\<forall>p. map_of b ''message'' = Some p \<and> truthy (Some p) \<longrightarrow> ms = written p)
         \<and> (\<not> truthy (map_of b ''message'') \<longrightarrow> ms = JStr [])
         \<and> (\<forall>s. map_of b ''message'' = Some (JStr s) \<longrightarrow> ms = JStr s)
         \<and> length (collection (snd (post_submit r e d))) = Suc (length (collection d))
         \<and> (as_written d \<longrightarrow>
              collection (snd (post_submit r e d)) =
                collection d @
                [JObj [(''id'', JNum (Finite (of_int (now e)))),
                       (''name'', JStr n),
                       (''email'', JStr m),
                       (''phone'', ph),
                       (''message'', ms),
                       (''timestamp'', JStr (iso_now e))]])
         \<and> ((\<forall>x \<in> set (collection d).
                \<exists>i. property x ''id'' = Some (JNum (Finite i)) \<and> i < of_int (now e)) \<longrightarrow>
              (\<forall>x \<in> set (map written (collection d)).
                property x ''id'' \<noteq> Some (JNum (Finite (of_int (now e))))))"
proof -
  define ph where "ph = written (or_empty (map_of b ''phone''))"
  define ms where "ms = written (or_empty (map_of b ''message''))"
  define x where "x = JObj [(''id'', JNum (Finite (of_int (now e)))), (''name'', JStr n),
    (''email'', JStr m), (''phone'', ph), (''message'', ms), (''timestamp'', JStr (iso_now e))]"
  have t: "truthy (map_of b ''name'')" "truthy (map_of b ''email'')"
    using assms(2-5) by simp_all
  have rec: "written (newSubmission b e) = x"
    by (simp add: newSubmission_eq [OF assms(2) assms(4)] x_def ph_def ms_def)
  have stored: "post_submit r e d =
      (Redirect ''/display'', Some (Text (JArr (map written (collection d) @ [x]))))"
    using post_submit_stores [OF assms(1) t assms(6-8)] by (simp add: rec)
  have len: "length (collection (snd (post_submit r e d))) = Suc (length (collection d))"
    by (simp add: stored collection_array)
  have same: "as_written d \<longrightarrow> collection (snd (post_submit r e d)) = collection d @ [x]"
    by (simp add: stored collection_array collection_as_written)
  have fresh: "(\<forall>y \<in> set (collection d).
                \<exists>i. property y ''id'' = Some (JNum (Finite i)) \<and> i < of_int (now e)) \<longrightarrow>
              (\<forall>y \<in> set (map written (collection d)).
                property y ''id'' \<noteq> Some (JNum (Finite (of_int (now e)))))"
    by (fastforce simp: property_written)
  show ?thesis
    using stored len same fresh
      written_or_empty [of "map_of b ''phone''"] written_or_empty [of "map_of b ''message''"]
    unfolding x_def ph_def ms_def
    by (intro exI [of _ "written (or_empty (map_of b ''phone''))"]
              exI [of _ "written (or_empty (map_of b ''message''))"]) simp
qed

theorem C3_valid_submission_appends_witness:
  "post_submit
     \<lparr>req_body = Some [(''name'', JStr ''Ada''), (''email'', JStr ''ada@example.com''),
                       (''phone'', JStr ''555''), (''message'', JStr ''hello'')],
      req_query = []\<rparr>
     ok_io (Some (Text (JArr [ada_record 500 ''then''])))
   = (Redirect ''/display'',
      Some (Text (JArr [ada_record 500 ''then'',
        JObj [(''id'', JNum (Finite 1000)), (''name'', JStr ''Ada''),
              (''email'', JStr ''ada@example.com''),
              (''phone'', JStr ''555''), (''message'', JStr ''hello''),
              (''timestamp'', JStr ''1970-01-01T00:00:01.000Z'')]])))"
proof -
  have h: "holds_collection (Some (Text (JArr [ada_record 500 ''then''])))"
    "\<not> read_fails ok_io" "write_result ok_io = Written"
    by (simp_all add: holds_collection_def ok_io_def)
  have old: "map written (collection (Some (Text (JArr [ada_record 500 ''then''])))) =
      [ada_record 500 ''then'']"
    by (simp add: collection_def ada_record_def)
  show ?thesis
    using C3_valid_submission_appends
      [of "\<lparr>req_body = Some [(''name'', JStr ''Ada''), (''email'', JStr ''ada@example.com''),
                             (''phone'', JStr ''555''), (''message'', JStr ''hello'')],
            req_query = []\<rparr>"
          "[(''name'', JStr ''Ada''), (''email'', JStr ''ada@example.com''),
            (''phone'', JStr ''555''), (''message'', JStr ''hello'')]"
          "''Ada''" "''ada@example.com''"
          "Some (Text (JArr [ada_record 500 ''then'']))" ok_io, OF _ _ _ _ _ h]
    by (auto simp: old ok_io_def)
qed

text \<open>
  The claim as stated fails in four ways, each on the submission of the specification's
  example (name \<open>Ada\<close>, email \<open>ada@example.com\<close>). When the write is refused,
  nothing is appended although the answer is the redirect to \<open>/display\<close>. When the
  read fails, a collection of two records is replaced by a collection of one. When the
  document parses to an object instead of an array, \<open>push\<close> throws, nothing is
  written and the answer is the redirect with the error message. When two submissions
  meet the same clock reading, both records get the same identifier.
\<close>

theorem C3_not_always_one_new_record:
  "post_submit ada (ok_io\<lparr>write_result := Write_refused\<rparr>) None = (Redirect ''/display'', None)
   \<and> post_submit ada (ok_io\<lparr>read_fails := True\<rparr>)
        (Some (Text (JArr [ada_record 1 ''a'', ada_record 2 ''b''])))
      = (Redirect ''/display'', Some (Text (JArr [ada_record 1000 ''1970-01-01T00:00:01.000Z''])))
   \<and> post_submit ada ok_io (Some (Text (JObj [])))
      = (Redirect ''/?message=An error occurred. Please try again.'', Some (Text (JObj [])))
   \<and> collection (run [as_post (ada, ok_io), as_post (ada, ok_io)] None)
      = [ada_record 1000 ''1970-01-01T00:00:01.000Z'', ada_record 1000 ''1970-01-01T00:00:01.000Z'']"
  by (simp add: post_submit_def post_submit_try_def ada_def ok_io_def readData_eq writeData_eq
        push_def newSubmission_def object_def or_empty_def ada_record_def as_post_def
        collection_def)

text \<open>
  Claim C2 says that \<open>GET /api/data\<close> answers 500 with an error object when reading
  the backing document fails. \<open>readData\<close> catches every failure of its own and
  returns the empty array, so the handler's \<open>catch\<close> is never entered on a read
  failure. As amended: the answer always has status 200; it carries the parsed document
  when the file exists, is read and parses, and the empty collection when the file is
  absent, cannot be read or does not parse. The document is left as it was.
\<close>

theorem C2_api_data_always_200:
  "get_api_data r e d =
     (Json 200 (case d of
                  None \<Rightarrow> JArr []
                | Some Unparsable \<Rightarrow> JArr []
                | Some (Text v) \<Rightarrow> if read_fails e then JArr [] else v),
      d)"
  by (simp add: get_api_data_def get_api_data_try_def readData_eq)

text \<open>
  The claim as stated fails: with a document of one record and a failing read, and with
  a document that does not parse, the answer is 200 with the empty array, not 500.
\<close>

theorem C2_read_failure_answered_200:
  "get_api_data ada (ok_io\<lparr>read_fails := True\<rparr>) (Some (Text (JArr [ada_record 1000 ''t''])))
     = (Json 200 (JArr []), Some (Text (JArr [ada_record 1000 ''t''])))
   \<and> get_api_data ada ok_io (Some Unparsable) = (Json 200 (JArr []), Some Unparsable)"
  by (simp add: get_api_data_def get_api_data_try_def readData_eq ok_io_def)

text \<open>
  Claim C4: a \<open>POST /submit\<close> whose name or email fails the test of line 80 (it is
  absent, the empty string, or another falsy value) is answered with a redirect to the
  form with an error message, and the document is left exactly as it was: the
  collection and its length are unchanged. The message is
  \<open>Name and email are required\<close>; when the request has no parsed body at all, the
  destructuring of line 77 throws and the message is that of the \<open>catch\<close>.
\<close>

theorem C4_missing_field_rejected:
  assumes "\<not> truthy (body_field r ''name'') \<or> \<not> truthy (body_field r ''email'')"
  shows "post_submit r e d =
           (Redirect (''/?message='' @ (if req_body r = None
                                        then ''An error occurred. Please try again.''
                                        else ''Name and email are required'')), d)
       \<and> collection (snd (post_submit r e d)) = collection d
       \<and> length (collection (snd (post_submit r e d))) = length (collection d)"
  using post_submit_rejected [OF assms] by simp

theorem C4_missing_field_rejected_witness:
  "post_submit \<lparr>req_body = Some [(''email'', JStr ''ada@example.com'')], req_query = []\<rparr>
     ok_io (Some (Text (JArr [ada_record 500 ''then''])))
     = (Redirect ''/?message=Name and email are required'',
        Some (Text (JArr [ada_record 500 ''then''])))
   \<and> post_submit \<lparr>req_body = Some [(''name'', JStr ''Ada''), (''email'', JStr [])], req_query = []\<rparr>
       ok_io None
     = (Redirect ''/?message=Name and email are required'', None)
   \<and> post_submit \<lparr>req_body = None, req_query = []\<rparr> ok_io None
     = (Redirect ''/?message=An error occurred. Please try again.'', None)"
  using
    C4_missing_field_rejected
      [of "\<lparr>req_body = Some [(''email'', JStr ''ada@example.com'')], req_query = []\<rparr>"
          ok_io "Some (Text (JArr [ada_record 500 ''then'']))"]
    C4_missing_field_rejected
      [of "\<lparr>req_body = Some [(''name'', JStr ''Ada''), (''email'', JStr [])], req_query = []\<rparr>"
          ok_io None]
    C4_missing_field_rejected [of "\<lparr>req_body = None, req_query = []\<rparr>" ok_io None]
  by (simp add: body_field_def)

lemma required_present_stored:
  assumes "truthy (map_of b ''name'')" "truthy (map_of b ''email'')"
    and "\<not> infinite_number (map_of b ''name'')" "\<not> infinite_number (map_of b ''email'')"
  shows "required_present (written (newSubmission b e))"
proof -
  obtain n m where nm: "map_of b ''name'' = Some n" "map_of b ''email'' = Some m"
    using assms(1,2) truthy_Some by blast
  have "property (newSubmission b e) ''name'' = map_of b ''name''"
    "property (newSubmission b e) ''email'' = map_of b ''email''"
    by (simp_all add: newSubmission_eq [OF nm] nm)
  then show ?thesis
    using assms by (simp add: required_present_def property_written truthy_written)
qed

lemma post_submit_invariant:
  assumes "invariant d" and "as_written d"
    and "\<not> infinite_number (body_field r ''name'')" "\<not> infinite_number (body_field r ''email'')"
  shows "invariant (snd (post_submit r e d)) \<and> as_written (snd (post_submit r e d))"
proof (cases "truthy (body_field r ''name'') \<and> truthy (body_field r ''email'')")
  case False
  then have "post_submit r e d = (Redirect (''/?message='' @ (if req_body r = None
      then ''An error occurred. Please try again.'' else ''Name and email are required'')), d)"
    by (intro post_submit_rejected) simp
  with assms show ?thesis by simp
next
  case True
  then obtain b where b: "req_body r = Some b"
    and t: "truthy (map_of b ''name'')" "truthy (map_of b ''email'')"
    by (auto simp: body_field_def split: option.splits)
  have fin: "\<not> infinite_number (map_of b ''name'')" "\<not> infinite_number (map_of b ''email'')"
    using assms(3,4) by (simp_all add: body_field_def b)
  have new: "required_present (written (newSubmission b e))"
    using t fin by (rule required_present_stored)
  show ?thesis
  proof (cases "readData e d")
    case (JArr xs)
    have "xs = [] \<or> xs = collection d"
      using JArr
      by (auto simp: readData_eq collection_def split: option.splits file_text.splits if_splits)
    then have old: "list_all required_present (map written xs)"
      using assms(1,2) by (auto simp: invariant_def collection_as_written)
    have "invariant (Some (Text (written (JArr (xs @ [newSubmission b e])))))"
      using old new by (simp add: invariant_def collection_array)
    moreover have "as_written (Some (Text (written (JArr (xs @ [newSubmission b e])))))"
      unfolding as_written_def by (simp only: option.case file_text.case written_idem)
    moreover have "invariant (Some Unparsable)" "as_written (Some Unparsable)"
      by (simp_all add: invariant_def collection_def as_written_def)
    ultimately show ?thesis
      using assms(1,2) JArr
      by (simp add: post_submit_accepted [OF b t] writeData_eq split: write_result.splits)
  qed (use assms(1,2) in \<open>simp_all add: post_submit_accepted [OF b t]\<close>)
qed

lemma handle_invariant:
  assumes "invariant d" and "as_written d" and "finite_required (rt, r, e)"
  shows "invariant (snd (handle rt r e d)) \<and> as_written (snd (handle rt r e d))"
proof (cases rt)
  case Post_submit
  with assms show ?thesis
    by (simp add: finite_required_def post_submit_invariant)
qed (use assms in \<open>simp_all add: get_root_def get_display_def get_api_data_def split: sum.splits\<close>)

lemma run_invariant:
  "list_all finite_required steps \<Longrightarrow> invariant d \<Longrightarrow> as_written d \<Longrightarrow>
   invariant (run steps d) \<and> as_written (run steps d)"
proof (induction steps arbitrary: d)
  case Nil
  then show ?case by simp
next
  case (Cons s steps)
  obtain rt r e where s: "s = (rt, r, e)"
    by (cases s) auto
  have "invariant (snd (handle rt r e d)) \<and> as_written (snd (handle rt r e d))"
    using Cons.prems by (intro handle_invariant) (simp_all add: s)
  then show ?case
    using Cons.prems(1) by (simp add: s Cons.IH)
qed

text \<open>
  Claim C5 says that every record of the persisted collection has a non-empty name and a
  non-empty email and that \<open>POST /submit\<close> preserves this. The test of line 80 is made
  on the value in memory, and \<open>JSON.stringify\<close> writes an infinite number as
  \<open>null\<close>: a submission whose name is the number \<open>1e999\<close> passes the test and is
  stored with the name \<open>null\<close>. As amended: from a document as the service writes it
  whose records all have a name and an email that pass the test of line 80, every run of
  requests to the four routes, in any environment, in which no \<open>POST /submit\<close> carries
  an infinite number as name or email, leads to such a document again. None of its
  records lacks a name or an email, or has \<open>null\<close> or the empty string for either.
\<close>

theorem C5_invariant_kept_by_finite_submissions:
  assumes "invariant d" and "as_written d" and "list_all finite_required steps"
  shows "invariant (run steps d)
       \<and> as_written (run steps d)
       \<and> list_all (\<lambda>x. property x ''name'' \<noteq> None \<and> property x ''name'' \<noteq> Some JNull
                      \<and> property x ''name'' \<noteq> Some (JStr [])
                      \<and> property x ''email'' \<noteq> None \<and> property x ''email'' \<noteq> Some JNull
                      \<and> property x ''email'' \<noteq> Some (JStr []))
           (collection (run steps d))"
proof -
  have inv: "invariant (run steps d) \<and> as_written (run steps d)"
    using assms(3,1,2) by (rule run_invariant)
  have "required_present x \<Longrightarrow>
      property x ''name'' \<noteq> None \<and> property x ''name'' \<noteq> Some JNull
      \<and> property x ''name'' \<noteq> Some (JStr [])
      \<and> property x ''email'' \<noteq> None \<and> property x ''email'' \<noteq> Some JNull
      \<and> property x ''email'' \<noteq> Some (JStr [])" for x
    using truthy_present by (simp add: required_present_def)
  then have "list_all (\<lambda>x. property x ''name'' \<noteq> None \<and> property x ''name'' \<noteq> Some JNull
                      \<and> property x ''name'' \<noteq> Some (JStr [])
                      \<and> property x ''email'' \<noteq> None \<and> property x ''email'' \<noteq> Some JNull
                      \<and> property x ''email'' \<noteq> Some (JStr []))
           (collection (run steps d))"
    using inv unfolding invariant_def list_all_iff by blast
  with inv show ?thesis by simp
qed

theorem C5_invariant_kept_by_finite_submissions_witness:
  "invariant None \<and> as_written None
   \<and> list_all finite_required
       [as_post (ada, ok_io),
        (Post_submit, \<lparr>req_body = Some [(''name'', JStr [])], req_query = []\<rparr>, ok_io),
        (Get_display, ada, ok_io),
        (Post_submit,
         \<lparr>req_body = Some [(''name'', JNum (Finite 7)), (''email'', JBool True),
                           (''phone'', JNum Plus_infinity)], req_query = []\<rparr>,
         ok_io\<lparr>now := 2000\<rparr>)]
   \<and> invariant (run
       [as_post (ada, ok_io),
        (Post_submit, \<lparr>req_body = Some [(''name'', JStr [])], req_query = []\<rparr>, ok_io),
        (Get_display, ada, ok_io),
        (Post_submit,
         \<lparr>req_body = Some [(''name'', JNum (Finite 7)), (''email'', JBool True),
                           (''phone'', JNum Plus_infinity)], req_query = []\<rparr>,
         ok_io\<lparr>now := 2000\<rparr>)] None)
   \<and> collection (run
       [as_post (ada, ok_io),
        (Post_submit, \<lparr>req_body = Some [(''name'', JStr [])], req_query = []\<rparr>, ok_io),
        (Get_display, ada, ok_io),
        (Post_submit,
         \<lparr>req_body = Some [(''name'', JNum (Finite 7)), (''email'', JBool True),
                           (''phone'', JNum Plus_infinity)], req_query = []\<rparr>,
         ok_io\<lparr>now := 2000\<rparr>)] None)
     = [ada_record 1000 ''1970-01-01T00:00:01.000Z'',
        JObj [(''id'', JNum (Finite 2000)), (''name'', JNum (Finite 7)), (''email'', JBool True),
              (''phone'', JNull), (''message'', JStr []),
              (''timestamp'', JStr ''1970-01-01T00:00:01.000Z'')]]"
proof -
  have start: "invariant None" "as_written None"
    by (simp_all add: invariant_def collection_def as_written_def)
  have fin: "list_all finite_required
       [as_post (ada, ok_io),
        (Post_submit, \<lparr>req_body = Some [(''name'', JStr [])], req_query = []\<rparr>, ok_io),
        (Get_display, ada, ok_io),
        (Post_submit,
         \<lparr>req_body = Some [(''name'', JNum (Finite 7)), (''email'', JBool True),
                           (''phone'', JNum Plus_infinity)], req_query = []\<rparr>,
         ok_io\<lparr>now := 2000\<rparr>)]"
    by (simp add: finite_required_def as_post_def infinite_number_def body_field_def ada_def)
  have coll: "collection (run
       [as_post (ada, ok_io),
        (Post_submit, \<lparr>req_body = Some [(''name'', JStr [])], req_query = []\<rparr>, ok_io),
        (Get_display, ada, ok_io),
        (Post_submit,
         \<lparr>req_body = Some [(''name'', JNum (Finite 7)), (''email'', JBool True),
                           (''phone'', JNum Plus_infinity)], req_query = []\<rparr>,
         ok_io\<lparr>now := 2000\<rparr>)] None)
     = [ada_record 1000 ''1970-01-01T00:00:01.000Z'',
        JObj [(''id'', JNum (Finite 2000)), (''name'', JNum (Finite 7)), (''email'', JBool True),
              (''phone'', JNull), (''message'', JStr []),
              (''timestamp'', JStr ''1970-01-01T00:00:01.000Z'')]]"
    by (simp add: post_submit_def post_submit_try_def ada_def ok_io_def readData_eq writeData_eq
        push_def newSubmission_def object_def or_empty_def ada_record_def as_post_def
        collection_def get_display_def get_display_try_def reverse_def)
  show ?thesis
    using start fin coll C5_invariant_kept_by_finite_submissions [OF start fin] by simp
qed

text \<open>
  The claim as stated fails: on the absent document, which satisfies the invariant, a
  \<open>POST /submit\<close> with the name \<open>1e999\<close> (parsed as infinity) and an email is
  accepted, and the record it stores has the name \<open>null\<close>.
\<close>

theorem C5_infinite_name_stored_as_null:
  "invariant None
   \<and> post_submit
       \<lparr>req_body = Some [(''name'', JNum Plus_infinity), (''email'', JStr ''ada@example.com'')],
        req_query = []\<rparr> ok_io None
     = (Redirect ''/display'',
        Some (Text (JArr
          [JObj [(''id'', JNum (Finite 1000)), (''name'', JNull),
                 (''email'', JStr ''ada@example.com''), (''phone'', JStr []),
                 (''message'', JStr []), (''timestamp'', JStr ''1970-01-01T00:00:01.000Z'')]])))
   \<and> \<not> invariant (snd (post_submit
       \<lparr>req_body = Some [(''name'', JNum Plus_infinity), (''email'', JStr ''ada@example.com'')],
        req_query = []\<rparr> ok_io None))"
  by (simp add: post_submit_def post_submit_try_def ok_io_def readData_eq writeData_eq
        push_def newSubmission_def object_def or_empty_def invariant_def required_present_def
        collection_def)

text \<open>
  Claim C7: for every document that holds a collection (absent, unparsable, or an
  array), \<open>GET /display\<close> renders the loaded submissions in the reverse of the order
  in which \<open>GET /api/data\<close> returns them, and \<open>GET /api/data\<close> returns them in the
  stored (insertion) order. What is loaded is the persisted collection, or the empty
  collection when the read fails.
\<close>

theorem C7_display_reverses_api_order:
  assumes "holds_collection d"
  shows "fst (get_display r1 e1 d) =
           Render ''display''
             [(''title'', Some (JStr ''Submitted Data'')),
              (''submissions'', Some (JArr (rev (if read_fails e1 then [] else collection d))))]
       \<and> fst (get_api_data r2 e2 d) =
           Json 200 (JArr (if read_fails e2 then [] else collection d))"
  using assms
  by (simp add: get_display_def get_display_try_def get_api_data_def get_api_data_try_def
        readData_collection reverse_def)

theorem C7_display_reverses_api_order_witness:
  "holds_collection (Some (Text (JArr [ada_record 1 ''a'', ada_record 2 ''b'', ada_record 3 ''c''])))
   \<and> fst (get_display ada ok_io
        (Some (Text (JArr [ada_record 1 ''a'', ada_record 2 ''b'', ada_record 3 ''c'']))))
     = Render ''display''
         [(''title'', Some (JStr ''Submitted Data'')),
          (''submissions'', Some (JArr [ada_record 3 ''c'', ada_record 2 ''b'', ada_record 1 ''a'']))]
   \<and> fst (get_api_data ada ok_io
        (Some (Text (JArr [ada_record 1 ''a'', ada_record 2 ''b'', ada_record 3 ''c'']))))
     = Json 200 (JArr [ada_record 1 ''a'', ada_record 2 ''b'', ada_record 3 ''c''])"
proof -
  have h: "holds_collection
      (Some (Text (JArr [ada_record 1 ''a'', ada_record 2 ''b'', ada_record 3 ''c''])))"
    by (simp add: holds_collection_def)
  show ?thesis
    using h C7_display_reverses_api_order [OF h, of ada ok_io ada ok_io]
    by (simp add: collection_def ok_io_def)
qed

text \<open>
  Claim C9: the three \<open>GET\<close> routes leave the backing document as it was. The
  reversal in \<open>GET /display\<close> acts on the value \<open>readData\<close> returned for that
  request only: a \<open>GET /api/data\<close> after it answers as it would have before it.
\<close>

theorem C9_get_routes_leave_document:
  "snd (get_root r e d) = d
   \<and> snd (get_display r e d) = d
   \<and> snd (get_api_data r e d) = d
   \<and> get_api_data r2 e2 (snd (get_display r e d)) = get_api_data r2 e2 d
   \<and> run [(Get_root, r, e), (Get_display, r1, e1), (Get_api_data, r2, e2)] d = d"
  by (simp add: get_root_def get_display_def get_api_data_def split: sum.splits)









end
